theory Spec2Isabelle
  imports Complex_Main "HOL-Library.AList"
begin

section \<open>Python values used by GPShandler.py\<close>

text \<open>
  What \<open>json.loads\<close> returns: \<open>None\<close>, a bool, a number, a string, a list or a dict with
  string keys. Python's \<open>None\<close> and JSON's \<open>null\<close> are the same value, so the attributes
  that \<open>__init__\<close> sets to \<open>None\<close> hold \<open>JNull\<close>. Numbers (Python int and float, and the
  float that \<open>time()\<close> returns) are rationals: floating-point rounding, NaN and the
  infinities are not modelled. A dict is an association list read with \<open>map_of\<close> and
  written with \<open>AList.update\<close>, which keeps the position of a key that is already there
  and appends a new one, as a Python dict does.
\<close>

datatype json =
    JNull
  | JBool bool
  | JNum rat
  | JStr string
  | JArr "json list"
  | JObj "(string \<times> json) list"

text \<open>
  The exception classes that the modelled code can raise. Every one of them derives from
  \<open>Exception\<close>; \<open>KeyboardInterrupt\<close> and \<open>SystemExit\<close>, which do not, are asynchronous
  requests rather than errors and are outside the model.
\<close>

datatype exn = AttributeError | TypeError | KeyError | ValueError | OSError | OverflowError

fun is_Exception :: "exn \<Rightarrow> bool" where
  "is_Exception AttributeError = True"
| "is_Exception TypeError = True"
| "is_Exception KeyError = True"
| "is_Exception ValueError = True"
| "is_Exception OSError = True"
| "is_Exception OverflowError = True"

text \<open>\<open>data[k]\<close> for a string \<open>k\<close>: only a dict can be subscripted by a string.\<close>

fun subscript :: "json \<Rightarrow> string \<Rightarrow> exn + json" where
  "subscript (JObj d) k = (case map_of d k of None \<Rightarrow> Inl KeyError | Some v \<Rightarrow> Inr v)"
| "subscript JNull k = Inl TypeError"
| "subscript (JBool b) k = Inl TypeError"
| "subscript (JNum r) k = Inl TypeError"
| "subscript (JStr s) k = Inl TypeError"
| "subscript (JArr xs) k = Inl TypeError"

text \<open>\<open>data[k] = v\<close> for a string \<open>k\<close>.\<close>

fun store :: "json \<Rightarrow> string \<Rightarrow> json \<Rightarrow> exn + json" where
  "store (JObj d) k v = Inr (JObj (AList.update k v d))"
| "store JNull k v = Inl TypeError"
| "store (JBool b) k v = Inl TypeError"
| "store (JNum r) k v = Inl TypeError"
| "store (JStr s) k v = Inl TypeError"
| "store (JArr xs) k v = Inl TypeError"

text \<open>\<open>v == n\<close> for an int literal \<open>n\<close>: numbers compare by value, and a bool is an int.\<close>

fun eq_int :: "json \<Rightarrow> int \<Rightarrow> bool" where
  "eq_int (JNum r) n = (r = of_int n)"
| "eq_int (JBool b) n = ((if b then 1 else 0) = n)"
| "eq_int JNull n = False"
| "eq_int (JStr s) n = False"
| "eq_int (JArr xs) n = False"
| "eq_int (JObj d) n = False"

text \<open>
  Keys of \<open>gps_cache\<close>. A dict key must be hashable (a list or a dict is not), and keys
  that compare equal are one key: \<open>True\<close>, \<open>1\<close> and \<open>1.0\<close> are the same key.
\<close>

datatype key = KNone | KNum rat | KStr string

fun hash_key :: "json \<Rightarrow> exn + key" where
  "hash_key JNull = Inr KNone"
| "hash_key (JBool b) = Inr (KNum (if b then 1 else 0))"
| "hash_key (JNum r) = Inr (KNum r)"
| "hash_key (JStr s) = Inr (KStr s)"
| "hash_key (JArr xs) = Inl TypeError"
| "hash_key (JObj d) = Inl TypeError"

section \<open>The GPS object\<close>

text \<open>
  The attributes of a \<open>GPS\<close> instance that the methods below read or write (threaded
  mode, the default). \<open>__init__\<close> starts the thread at line 55 and creates \<open>gps_cache\<close>
  only at line 59, so the thread can run while the attribute does not exist yet: the
  field \<open>gps_cache\<close> is \<open>Some\<close> dict once line 59 has run, and \<open>None\<close>, no such
  attribute, before.
\<close>

record gps =
  lat :: json
  lon :: json
  alt :: json
  hdop :: json
  timestamp :: json
  lastGpsReading :: "rat option"
  gps_cache :: "(key \<times> json) list option"
  running :: bool
  stopped :: bool

text \<open>The object when the thread is started, at line 55.\<close>

definition GPS_started :: gps where
  "GPS_started = \<lparr> lat = JNull, lon = JNull, alt = JNull, hdop = JNull, timestamp = JNull,
     lastGpsReading = None, gps_cache = None, running = False, stopped = True \<rparr>"

text \<open>The object once line 59 has run, before any sentence has been processed.\<close>

definition GPS_init :: gps where
  "GPS_init = \<lparr> lat = JNull, lon = JNull, alt = JNull, hdop = JNull, timestamp = JNull,
     lastGpsReading = None, gps_cache = Some [], running = False, stopped = True \<rparr>"

definition VERBOSE :: bool where
  "VERBOSE = False"

definition get_gps :: "gps \<Rightarrow> json \<times> json \<times> json \<times> json" where
  "get_gps st = (lat st, lon st, alt st, hdop st)"

section \<open>update_gps\<close>

text \<open>
  One call of \<open>update_gps\<close> consumes what the two external calls give it:
  \<open>gpsd_socket.next()\<close> raises (also when \<open>__init__\<close> could not create \<open>gpsd_socket\<close>:
  AttributeError), returns \<open>None\<close>, or returns a line; \<open>json.loads\<close> of the line raises
  JSONDecodeError (a ValueError) or returns a value. The clock is read twice, at line 171
  (\<open>t1\<close>) and at line 188 (\<open>t2\<close>).
\<close>

datatype poll =
    ReadRaises exn
  | NoData
  | Malformed
  | Message json

text \<open>
  A step of the body gives the object as it is when the step ends and the exception that
  is propagating, if any: an assignment made before a raise stays made.
\<close>

text \<open>The handler \<open>except KeyError\<close> of lines 189-190: it logs and goes on.\<close>

definition except_KeyError :: "exn \<Rightarrow> gps \<Rightarrow> gps \<times> exn option" where
  "except_KeyError e st = (st, if e = KeyError then None else Some e)"

text \<open>Lines 182-190, the inner \<open>try\<close>.\<close>

definition try_fix :: "json \<Rightarrow> rat \<Rightarrow> gps \<Rightarrow> gps \<times> exn option" where
  "try_fix data t2 st =
     (case subscript data ''lat'' of Inl e \<Rightarrow> except_KeyError e st | Inr v1 \<Rightarrow>
      let st1 = st\<lparr>lat := v1\<rparr> in
      (case subscript data ''lon'' of Inl e \<Rightarrow> except_KeyError e st1 | Inr v2 \<Rightarrow>
       let st2 = st1\<lparr>lon := v2\<rparr> in
       (case subscript data ''alt'' of Inl e \<Rightarrow> except_KeyError e st2 | Inr v3 \<Rightarrow>
        let st3 = st2\<lparr>alt := v3\<rparr> in
        (case subscript data ''time'' of Inl e \<Rightarrow> except_KeyError e st3 | Inr v4 \<Rightarrow>
         let st4 = st3\<lparr>timestamp := v4\<rparr> in
         (st4\<lparr>lastGpsReading := Some t2\<rparr>, None)))))"

text \<open>Lines 191-198, the \<open>SKY\<close> test that follows the \<open>TPV\<close> block.\<close>

definition sky_part :: "json \<Rightarrow> gps \<Rightarrow> gps \<times> exn option" where
  "sky_part data st =
     (case subscript data ''class'' of Inl e \<Rightarrow> (st, Some e) | Inr c \<Rightarrow>
      if c = JStr ''SKY'' then
        (case subscript data ''hdop'' of Inl e \<Rightarrow> (st, Some e) | Inr h \<Rightarrow> (st\<lparr>hdop := h\<rparr>, None))
      else (st, None))"

text \<open>Lines 175-198: the \<open>TPV\<close> block, with its early \<open>return\<close>, then the \<open>SKY\<close> test.\<close>

definition tpv_part :: "json \<Rightarrow> rat \<Rightarrow> gps \<Rightarrow> gps \<times> exn option" where
  "tpv_part data t2 st =
     (case subscript data ''class'' of Inl e \<Rightarrow> (st, Some e) | Inr c \<Rightarrow>
      if c = JStr ''TPV'' then
        (case subscript data ''mode'' of Inl e \<Rightarrow> (st, Some e) | Inr m \<Rightarrow>
         if eq_int m 0 then (st, None)
         else (case subscript data ''mode'' of Inl e \<Rightarrow> (st, Some e) | Inr m' \<Rightarrow>
           if eq_int m' 1 then (st, None)
           else (case try_fix data t2 st of
                   (st', Some e) \<Rightarrow> (st', Some e)
                 | (st', None) \<Rightarrow> sky_part data st')))
      else sky_part data st)"

text \<open>
  Lines 159-201, the body of the outer \<open>try\<close>. The assignment of line 172 loads
  \<open>self.gps_cache\<close> first (AttributeError when it does not exist), then evaluates
  \<open>data["class"]\<close>, then stores, which hashes the key.
\<close>

definition update_body :: "poll \<Rightarrow> rat \<Rightarrow> rat \<Rightarrow> gps \<Rightarrow> gps \<times> exn option" where
  "update_body p t1 t2 st =
     (case p of
        ReadRaises e \<Rightarrow> (st, Some e)
      | NoData \<Rightarrow> (st, None)
      | Malformed \<Rightarrow> (st, Some ValueError)
      | Message j \<Rightarrow>
          (case (if VERBOSE then subscript j ''class'' else Inr JNull) of
             Inl e \<Rightarrow> (st, Some e)
           | Inr _ \<Rightarrow>
          (case store j ''lastReadingTime'' (JNum t1) of Inl e \<Rightarrow> (st, Some e) | Inr data \<Rightarrow>
           (case gps_cache st of None \<Rightarrow> (st, Some AttributeError) | Some cache \<Rightarrow>
            (case subscript data ''class'' of Inl e \<Rightarrow> (st, Some e) | Inr c \<Rightarrow>
             (case hash_key c of Inl e \<Rightarrow> (st, Some e) | Inr k \<Rightarrow>
                tpv_part data t2
                  (st\<lparr>gps_cache := Some (AList.update k data cache)\<rparr>)))))))"

text \<open>
  Lines 158-204: \<open>except Exception\<close> logs what the body raised and the method returns
  \<open>None\<close>; the result here is the object after the call, or the exception that leaves it.
\<close>

definition update_gps :: "poll \<Rightarrow> rat \<Rightarrow> rat \<Rightarrow> gps \<Rightarrow> exn + gps" where
  "update_gps p t1 t2 st =
     (case update_body p t1 t2 st of
        (st', None) \<Rightarrow> Inr st'
      | (st', Some e) \<Rightarrow> if is_Exception e then Inr st' else Inl e)"

text \<open>Successive calls of \<open>update_gps\<close>, each with its read and its two clock values.\<close>

fun feed :: "(poll \<times> rat \<times> rat) list \<Rightarrow> gps \<Rightarrow> exn + gps" where
  "feed [] st = Inr st"
| "feed ((p, t1, t2) # ps) st =
     (case update_gps p t1 t2 st of Inl e \<Rightarrow> Inl e | Inr st' \<Rightarrow> feed ps st')"

section \<open>The background thread\<close>

text \<open>
  \<open>_updater\<close> (lines 132-143) runs in its own thread; what the rest of the program does
  to it is the sequence of events it meets: a poll (the read and the clock values of one
  call of \<open>update_gps\<close>), the constructing thread reaching line 59 of \<open>__init__\<close>
  (\<open>self.gps_cache={}\<close>), or another thread executing \<open>self.running=False\<close> (\<open>stop()\<close>,
  \<open>__del__\<close>), which the loop sees at its next test. The thread is started on the object
  \<open>GPS_started\<close>; a poll that comes before line 59 finds no \<open>gps_cache\<close>. \<open>delay\<close> only waits: with the
  numeric \<open>threadDelay\<close> it neither raises nor touches an attribute. After the loop the
  thread logs through \<open>logger.warn\<close>, which \<open>logging\<close> has up to Python 3.12, and
  sets \<open>stopped\<close>.
\<close>

datatype event = Tick poll rat rat | CacheCreated | StopRequest

text \<open>
  The \<open>while self.running\<close> loop over the events so far. When the events are used up
  and \<open>running\<close> still holds, the loop is still going.
\<close>

fun while_running :: "event list \<Rightarrow> gps \<Rightarrow> exn + gps" where
  "while_running [] st = Inr st"
| "while_running (StopRequest # evs) st = while_running evs (st\<lparr>running := False\<rparr>)"
| "while_running (CacheCreated # evs) st = while_running evs (st\<lparr>gps_cache := Some []\<rparr>)"
| "while_running (Tick p t1 t2 # evs) st =
     (if running st then
        (case update_gps p t1 t2 st of Inl e \<Rightarrow> Inl e | Inr st' \<Rightarrow> while_running evs st')
      else Inr st)"

definition updater :: "event list \<Rightarrow> gps \<Rightarrow> exn + gps" where
  "updater evs st =
     (case while_running evs (st\<lparr>running := True, stopped := False\<rparr>) of
        Inl e \<Rightarrow> Inl e
      | Inr st' \<Rightarrow> Inr (if running st' then st' else st'\<lparr>stopped := True\<rparr>))"

section \<open>get_corrected_timestamp\<close>

text \<open>
  A \<open>datetime\<close> and a \<open>timedelta\<close> are counts of microseconds, the resolution of both
  classes; a \<open>datetime\<close> counts from the epoch, with the local zone taken as UTC.
  Both constructors round to the nearest microsecond, ties to even. The range errors
  are those of CPython 3 on 64-bit Linux.
\<close>

definition round_half_even :: "rat \<Rightarrow> int" where
  "round_half_even x =
     (let f = \<lfloor>x\<rfloor>; r = x - of_int f
      in if r < 1 / 2 then f else if 1 / 2 < r then f + 1 else if even f then f else f + 1)"

text \<open>\<open>datetime.min\<close> (year 1) and \<open>datetime.max\<close> (year 9999), in microseconds.\<close>

definition datetime_min :: int where
  "datetime_min = - 62135596800000000"

definition datetime_max :: int where
  "datetime_max = 253402300799999999"

text \<open>
  \<open>datetime.fromtimestamp(v)\<close>: a number of seconds (a bool is an int); anything else,
  \<open>None\<close> included, is a TypeError. The whole seconds must fit the platform's 64-bit
  \<open>time_t\<close> (OverflowError), then be a time that \<open>localtime\<close> can break down (OSError),
  then give a year in 1..9999 (ValueError); the same holds one day earlier, where the
  constructor looks for a fold, so the first day of year 1 is refused as well.
\<close>

definition seconds_to_datetime :: "rat \<Rightarrow> exn + int" where
  "seconds_to_datetime r =
     (let us = round_half_even (r * 1000000); secs = us div 1000000
      in if secs < - 9223372036854775808 \<or> 9223372036854775807 < secs then Inl OverflowError
         else if secs < - 67768040609740800 \<or> 67768036191676799 < secs then Inl OSError
         else if secs < - 62135510400 \<or> 253402300799 < secs then Inl ValueError
         else Inr us)"

fun fromtimestamp :: "json \<Rightarrow> exn + int" where
  "fromtimestamp (JNum r) = seconds_to_datetime r"
| "fromtimestamp (JBool b) = seconds_to_datetime (if b then 1 else 0)"
| "fromtimestamp JNull = Inl TypeError"
| "fromtimestamp (JStr s) = Inl TypeError"
| "fromtimestamp (JArr xs) = Inl TypeError"
| "fromtimestamp (JObj d) = Inl TypeError"

text \<open>
  \<open>timedelta(x)\<close>: the first positional parameter of \<open>timedelta\<close> is \<open>days\<close>. The
  magnitude is limited to 999999999 days.
\<close>

definition timedelta :: "rat \<Rightarrow> exn + int" where
  "timedelta days =
     (let us = round_half_even (days * 86400000000)
      in if - 86399999913600000000 \<le> us \<and> us \<le> 86399999999999999999 then Inr us
         else Inl OverflowError)"

text \<open>\<open>datetime + timedelta\<close>.\<close>

definition datetime_add :: "int \<Rightarrow> int \<Rightarrow> exn + int" where
  "datetime_add d td =
     (if datetime_min \<le> d + td \<and> d + td \<le> datetime_max then Inr (d + td)
      else Inl OverflowError)"

text \<open>\<open>time() - self.lastGpsReading\<close>: a float minus \<open>None\<close> is a TypeError.\<close>

definition elapsed :: "rat \<Rightarrow> rat option \<Rightarrow> exn + rat" where
  "elapsed now reading = (case reading of None \<Rightarrow> Inl TypeError | Some t \<Rightarrow> Inr (now - t))"

text \<open>Line 95, left to right; \<open>now\<close> is what \<open>time()\<close> returns.\<close>

definition get_corrected_timestamp :: "rat \<Rightarrow> gps \<Rightarrow> exn + int" where
  "get_corrected_timestamp now st =
     (case fromtimestamp (timestamp st) of Inl e \<Rightarrow> Inl e | Inr d \<Rightarrow>
      (case elapsed now (lastGpsReading st) of Inl e \<Rightarrow> Inl e | Inr x \<Rightarrow>
       (case timedelta x of Inl e \<Rightarrow> Inl e | Inr td \<Rightarrow> datetime_add d td)))"

section \<open>getSentences and getSentence\<close>

text \<open>
  \<open>self.name\<close> where a dict is used. \<open>__init__\<close> sets \<open>gps_cache\<close>, at line 59; a
  \<open>GPS\<close> object has no attribute, method or class attribute called \<open>gpc_cache\<close>.
\<close>

definition getattr :: "gps \<Rightarrow> string \<Rightarrow> exn + (key \<times> json) list" where
  "getattr st name =
     (if name = ''gps_cache'' then
        (case gps_cache st of None \<Rightarrow> Inl AttributeError | Some c \<Rightarrow> Inr c)
      else Inl AttributeError)"

text \<open>Line 114: \<open>return self.gpc_cache.keys()\<close>.\<close>

definition getSentences :: "gps \<Rightarrow> exn + key list" where
  "getSentences st =
     (case getattr st ''gpc_cache'' of Inl e \<Rightarrow> Inl e | Inr c \<Rightarrow> Inr (map fst c))"

definition to_upper :: "char \<Rightarrow> char" where
  "to_upper c =
     (let n = (of_char c :: nat) in if 97 \<le> n \<and> n \<le> 122 then char_of (n - 32) else c)"

definition to_lower :: "char \<Rightarrow> char" where
  "to_lower c =
     (let n = (of_char c :: nat) in if 65 \<le> n \<and> n \<le> 90 then char_of (n + 32) else c)"

text \<open>
  \<open>s.name()\<close> for a string \<open>s\<close>: \<open>str\<close> has the methods \<open>upper\<close> and \<open>lower\<close>; it has
  no attribute \<open>toupper\<close>, and looking one up raises AttributeError.
\<close>

definition str_method :: "string \<Rightarrow> string \<Rightarrow> exn + string" where
  "str_method s name =
     (if name = ''upper'' then Inr (map to_upper s)
      else if name = ''lower'' then Inr (map to_lower s)
      else Inl AttributeError)"

text \<open>Lines 127-130; the result \<open>None\<close> is \<open>JNull\<close>.\<close>

definition getSentence :: "string \<Rightarrow> gps \<Rightarrow> exn + json" where
  "getSentence which st =
     (case str_method which ''toupper'' of Inl e \<Rightarrow> Inl e | Inr w \<Rightarrow>
      (case getattr st ''gps_cache'' of Inl e \<Rightarrow> Inl e | Inr c \<Rightarrow>
       (case map_of c (KStr w) of Some s \<Rightarrow> Inr s | None \<Rightarrow> Inr JNull)))"

section \<open>Sentences with a fix\<close>

text \<open>
  The sentences that a sequence of fixes is made of: a dict of class \<open>TPV\<close> whose \<open>mode\<close>
  is 2 or 3 and which has the four keys that lines 183-186 read. Such a sentence arrives
  as one poll, with the two clock values of that call.
\<close>

definition tpv_fix :: "(string \<times> json) list \<Rightarrow> bool" where
  "tpv_fix d \<longleftrightarrow>
     map_of d ''class'' = Some (JStr ''TPV'') \<and>
     (map_of d ''mode'' = Some (JNum 2) \<or> map_of d ''mode'' = Some (JNum 3)) \<and>
     map_of d ''lat'' \<noteq> None \<and> map_of d ''lon'' \<noteq> None \<and>
     map_of d ''alt'' \<noteq> None \<and> map_of d ''time'' \<noteq> None"

definition fix_poll :: "(string \<times> json) list \<times> rat \<times> rat \<Rightarrow> poll \<times> rat \<times> rat" where
  "fix_poll x = (Message (JObj (fst x)), snd x)"

section \<open>Lemmas about the body of update_gps\<close>

lemma subscript_stamped:
  "subscript (JObj (AList.update ''lastReadingTime'' v d)) k =
     (if k = ''lastReadingTime'' then Inr v else subscript (JObj d) k)"
  by (simp add: update_conv')

text \<open>
  A dict reaches the \<open>TPV\<close> block exactly when the cache exists and the dict has a
  hashable \<open>class\<close>.
\<close>

lemma update_body_dict:
  "update_body (Message (JObj d)) t1 t2 st =
     (case gps_cache st of
        None \<Rightarrow> (st, Some AttributeError)
      | Some cache \<Rightarrow>
          (case map_of d ''class'' of
             None \<Rightarrow> (st, Some KeyError)
           | Some c \<Rightarrow>
               (case hash_key c of
                  Inl e \<Rightarrow> (st, Some e)
                | Inr k \<Rightarrow>
                    tpv_part (JObj (AList.update ''lastReadingTime'' (JNum t1) d)) t2
                      (st\<lparr>gps_cache :=
                         Some (AList.update k
                           (JObj (AList.update ''lastReadingTime'' (JNum t1) d)) cache)\<rparr>))))"
  by (simp add: update_body_def VERBOSE_def update_conv' split: option.splits)

lemma update_body_not_dict:
  "\<forall>d. j \<noteq> JObj d \<Longrightarrow> \<exists>e. update_body (Message j) t1 t2 st = (st, Some e)"
  by (cases j) (simp_all add: update_body_def VERBOSE_def)

text \<open>Before line 59 has run, a message of any shape leaves the object as it is.\<close>

lemma update_body_no_cache:
  "gps_cache st = None \<Longrightarrow> \<exists>e. update_body (Message j) t1 t2 st = (st, Some e)"
  by (cases j) (simp_all add: update_body_def VERBOSE_def)

lemma is_Exception_all: "is_Exception e"
  by (cases e) simp_all

lemma update_gps_returns: "update_gps p t1 t2 st = Inr (fst (update_body p t1 t2 st))"
  by (simp add: update_gps_def is_Exception_all split: prod.splits option.splits)

lemma tpv_part_no_fix:
  assumes "map_of d ''class'' = Some (JStr ''TPV'')"
    and "map_of d ''mode'' = Some (JNum 0) \<or> map_of d ''mode'' = Some (JNum 1)"
  shows "tpv_part (JObj (AList.update ''lastReadingTime'' v d)) t2 st = (st, None)"
  using assms by (auto simp add: tpv_part_def update_conv')

section \<open>A sentence without a fix\<close>

text \<open>
  C6. A \<open>TPV\<close> sentence whose \<open>mode\<close> is 0 or 1 is processed without an exception
  leaving \<open>update_gps\<close>, and \<open>get_gps\<close> returns afterwards what it returned before. Once
  the cache exists no exception is raised at all, not even one that the method catches.
\<close>

theorem update_gps_no_fix_keeps_position:
  assumes "map_of d ''class'' = Some (JStr ''TPV'')"
    and "map_of d ''mode'' = Some (JNum 0) \<or> map_of d ''mode'' = Some (JNum 1)"
  shows "\<exists>st'. update_gps (Message (JObj d)) t1 t2 st = Inr st' \<and>
      get_gps st' = get_gps st \<and>
      (gps_cache st \<noteq> None \<longrightarrow> update_body (Message (JObj d)) t1 t2 st = (st', None))"
proof (cases "gps_cache st")
  case None
  then show ?thesis by (simp add: update_gps_returns update_body_dict)
next
  case (Some cache)
  with assms(1) tpv_part_no_fix [OF assms] show ?thesis
    by (simp add: update_gps_returns update_body_dict get_gps_def)
qed

theorem update_gps_no_fix_keeps_position_witness:
  "map_of [(''class'', JStr ''TPV''), (''mode'', JNum 1)] ''class'' = Some (JStr ''TPV'') \<and>
   (map_of [(''class'', JStr ''TPV''), (''mode'', JNum 1)] ''mode'' = Some (JNum 0) \<or>
    map_of [(''class'', JStr ''TPV''), (''mode'', JNum 1)] ''mode'' = Some (JNum 1)) \<and>
   gps_cache GPS_init \<noteq> None \<and>
   (\<exists>st'. update_gps (Message (JObj [(''class'', JStr ''TPV''), (''mode'', JNum 1)]))
             5 6 GPS_init = Inr st' \<and>
      get_gps st' = get_gps GPS_init \<and>
      update_body (Message (JObj [(''class'', JStr ''TPV''), (''mode'', JNum 1)]))
             5 6 GPS_init = (st', None))"
  using update_gps_no_fix_keeps_position
    [of "[(''class'', JStr ''TPV''), (''mode'', JNum 1)]" 5 6 GPS_init]
  by (simp add: GPS_init_def)

section \<open>A SKY sentence\<close>

text \<open>Once the cache exists, a \<open>SKY\<close> sentence with an \<open>hdop\<close> field sets \<open>hdop\<close> only.\<close>

lemma update_gps_sky_after_init:
  assumes "map_of d ''class'' = Some (JStr ''SKY'')" and "map_of d ''hdop'' = Some h"
    and "gps_cache st \<noteq> None"
  shows "\<exists>st'. update_gps (Message (JObj d)) t1 t2 st = Inr st' \<and> hdop st' = h \<and>
      lat st' = lat st \<and> lon st' = lon st \<and> alt st' = alt st"
  using assms
  by (auto simp add: update_gps_returns update_body_dict tpv_part_def sky_part_def update_conv')

text \<open>
  C8. The claim is that every \<open>SKY\<close> sentence with an \<open>hdop\<close> field sets \<open>hdop\<close>. The
  thread is started before \<open>__init__\<close> creates \<open>gps_cache\<close>: a \<open>SKY\<close> sentence polled
  in between raises AttributeError at line 172, which line 203 catches, and \<open>hdop\<close>
  stays \<open>None\<close>.
\<close>

theorem update_gps_sky_before_cache:
  "update_gps (Message (JObj [(''class'', JStr ''SKY''), (''hdop'', JNum (6 / 5))])) 1 2
     GPS_started = Inr GPS_started \<and>
   hdop GPS_started = JNull \<and> JNum (6 / 5) \<noteq> JNull"
  by (simp add: update_gps_returns update_body_dict GPS_started_def)

section \<open>A message without a class\<close>

text \<open>
  C10. A decoded message that is not a dict with a \<open>class\<close> key changes nothing:
  \<open>update_gps\<close> returns and the object, cache and snapshot attributes alike, is as it was.
\<close>

theorem update_gps_without_class_unchanged:
  assumes "\<forall>d. j = JObj d \<longrightarrow> map_of d ''class'' = None"
  shows "update_gps (Message j) t1 t2 st = Inr st"
proof (cases "\<exists>d. j = JObj d")
  case True
  then obtain d where j: "j = JObj d" by blast
  with assms have "map_of d ''class'' = None" by simp
  then show ?thesis using j
    by (simp add: update_gps_returns update_body_dict split: option.splits)
next
  case False
  then have "\<forall>d. j \<noteq> JObj d" by simp
  from update_body_not_dict [OF this]
  obtain e where "update_body (Message j) t1 t2 st = (st, Some e)" by blast
  then show ?thesis by (simp add: update_gps_returns)
qed

theorem update_gps_without_class_unchanged_witness:
  "map_of [(''mode'', JNum 3)] ''class'' = None \<and>
   update_gps (Message (JObj [(''mode'', JNum 3)])) 5 6 GPS_init = Inr GPS_init"
  using update_gps_without_class_unchanged [of "JObj [(''mode'', JNum 3)]" 5 6 GPS_init]
  by simp

section \<open>A sequence of fixes\<close>

lemma tpv_part_fix:
  assumes "map_of d ''class'' = Some (JStr ''TPV'')"
    and "map_of d ''mode'' = Some (JNum 2) \<or> map_of d ''mode'' = Some (JNum 3)"
  shows "tpv_part (JObj (AList.update ''lastReadingTime'' v d)) t2 st =
           try_fix (JObj (AList.update ''lastReadingTime'' v d)) t2 st"
  using assms
  by (auto simp add: tpv_part_def sky_part_def update_conv' split: prod.splits option.splits)

text \<open>The inner \<open>try\<close> on a dict: the assignments stop at the first key that is missing.\<close>

lemma try_fix_dict:
  "try_fix (JObj (AList.update ''lastReadingTime'' v d)) t2 st =
     (case map_of d ''lat'' of None \<Rightarrow> (st, None) | Some la \<Rightarrow>
      (case map_of d ''lon'' of None \<Rightarrow> (st\<lparr>lat := la\<rparr>, None) | Some lo \<Rightarrow>
       (case map_of d ''alt'' of None \<Rightarrow> (st\<lparr>lat := la, lon := lo\<rparr>, None) | Some al \<Rightarrow>
        (case map_of d ''time'' of
           None \<Rightarrow> (st\<lparr>lat := la, lon := lo, alt := al\<rparr>, None)
         | Some ti \<Rightarrow>
             (st\<lparr>lat := la, lon := lo, alt := al, timestamp := ti,
                 lastGpsReading := Some t2\<rparr>, None)))))"
  by (simp add: try_fix_def except_KeyError_def update_conv' split: option.splits)

lemma update_gps_fix:
  assumes "tpv_fix d" and "gps_cache st \<noteq> None"
  shows "\<exists>st'. update_gps (Message (JObj d)) t1 t2 st = Inr st' \<and>
     Some (lat st') = map_of d ''lat'' \<and> Some (lon st') = map_of d ''lon'' \<and>
     Some (alt st') = map_of d ''alt'' \<and> hdop st' = hdop st \<and> gps_cache st' \<noteq> None"
proof -
  from assms(1) obtain la lo al ti
    where f: "map_of d ''lat'' = Some la" "map_of d ''lon'' = Some lo"
      "map_of d ''alt'' = Some al" "map_of d ''time'' = Some ti"
    by (auto simp add: tpv_fix_def)
  from assms(1) have c: "map_of d ''class'' = Some (JStr ''TPV'')"
    and m: "map_of d ''mode'' = Some (JNum 2) \<or> map_of d ''mode'' = Some (JNum 3)"
    by (simp_all add: tpv_fix_def)
  from assms(2) obtain cache where "gps_cache st = Some cache" by auto
  then show ?thesis
    by (simp add: update_gps_returns update_body_dict c tpv_part_fix [OF c m] try_fix_dict f)
qed

lemma fix_poll_simp: "fix_poll (d, t1, t2) = (Message (JObj d), t1, t2)"
  by (simp add: fix_poll_def)

lemma feed_append:
  "feed (ps @ qs) st = (case feed ps st of Inl e \<Rightarrow> Inl e | Inr st' \<Rightarrow> feed qs st')"
  by (induction ps arbitrary: st) (auto split: sum.splits)

lemma feed_fixes_hdop:
  "\<forall>x \<in> set xs. tpv_fix (fst x) \<Longrightarrow> gps_cache st \<noteq> None \<Longrightarrow>
     \<exists>st'. feed (map fix_poll xs) st = Inr st' \<and> hdop st' = hdop st \<and> gps_cache st' \<noteq> None"
proof (induction xs arbitrary: st)
  case Nil
  then show ?case by simp
next
  case (Cons x xs)
  obtain d t1 t2 where x: "x = (d, t1, t2)" by (cases x)
  with Cons.prems have "tpv_fix d" by simp
  from update_gps_fix [OF this Cons.prems(2), of t1 t2] obtain st1
    where s1: "update_gps (Message (JObj d)) t1 t2 st = Inr st1" "hdop st1 = hdop st"
      "gps_cache st1 \<noteq> None"
    by blast
  from Cons.prems have "\<forall>x \<in> set xs. tpv_fix (fst x)" by simp
  from Cons.IH [OF this s1(3)] obtain st'
    where "feed (map fix_poll xs) st1 = Inr st'" "hdop st' = hdop st1" "gps_cache st' \<noteq> None"
    by blast
  with s1 x show ?case by (simp add: fix_poll_simp)
qed

text \<open>
  Once the cache exists, a sequence of fixes leaves in the snapshot the \<open>lat\<close>, \<open>lon\<close>
  and \<open>alt\<close> of its last sentence, and the \<open>hdop\<close> that was there before.
\<close>

lemma feed_fixes_after_init:
  assumes "\<forall>x \<in> set xs. tpv_fix (fst x)" and "tpv_fix d" and "gps_cache st \<noteq> None"
    and "map_of d ''lat'' = Some la" and "map_of d ''lon'' = Some lo"
    and "map_of d ''alt'' = Some al"
  shows "\<exists>st'. feed (map fix_poll (xs @ [(d, t1, t2)])) st = Inr st' \<and>
     get_gps st' = (la, lo, al, hdop st)"
proof -
  from feed_fixes_hdop [OF assms(1,3)] obtain st1
    where s1: "feed (map fix_poll xs) st = Inr st1" "hdop st1 = hdop st"
      "gps_cache st1 \<noteq> None" by blast
  from update_gps_fix [OF assms(2) s1(3), of t1 t2] obtain st'
    where s2: "update_gps (Message (JObj d)) t1 t2 st1 = Inr st'"
      "Some (lat st') = map_of d ''lat''" "Some (lon st') = map_of d ''lon''"
      "Some (alt st') = map_of d ''alt''" "hdop st' = hdop st1" by blast
  have "feed (map fix_poll (xs @ [(d, t1, t2)])) st = Inr st'"
    using s1 s2(1) by (simp add: feed_append fix_poll_simp)
  with s1 s2 assms(4-6) show ?thesis by (simp add: get_gps_def)
qed

text \<open>
  C1. The claim is that after any sequence of fixes \<open>get_gps\<close> returns the position of
  the last one. The thread is started (line 55) before \<open>__init__\<close> creates \<open>gps_cache\<close>
  (line 59): a fix that the thread polls in between raises AttributeError at line 172,
  before the assignments of lines 183-188, and line 203 catches it. The sequence made of
  that one fix leaves the position at \<open>None\<close>, and nothing of it is left once
  \<open>__init__\<close> has finished and the thread has been stopped.
\<close>

theorem feed_fix_before_cache:
  "tpv_fix [(''class'', JStr ''TPV''), (''mode'', JNum 3), (''lat'', JNum (103 / 2)),
      (''lon'', JNum (- 1 / 10)), (''alt'', JNum 10), (''time'', JNum 1700000000)] \<and>
   feed (map fix_poll
      [([(''class'', JStr ''TPV''), (''mode'', JNum 3), (''lat'', JNum (103 / 2)),
         (''lon'', JNum (- 1 / 10)), (''alt'', JNum 10), (''time'', JNum 1700000000)], 1, 2)])
     GPS_started = Inr GPS_started \<and>
   get_gps GPS_started = (JNull, JNull, JNull, JNull) \<and>
   updater
     [Tick (Message (JObj [(''class'', JStr ''TPV''), (''mode'', JNum 3),
        (''lat'', JNum (103 / 2)), (''lon'', JNum (- 1 / 10)), (''alt'', JNum 10),
        (''time'', JNum 1700000000)])) 1 2,
      CacheCreated, StopRequest] GPS_started = Inr GPS_init"
  by (simp add: tpv_fix_def fix_poll_def update_gps_returns update_body_dict updater_def
      get_gps_def GPS_started_def GPS_init_def)

section \<open>A fix with a field missing\<close>

text \<open>
  C3, as the claim states it, fails: a \<open>TPV\<close> sentence with mode 3 that has \<open>lat\<close> but
  not \<open>lon\<close> changes \<open>lat\<close>, which was \<open>None\<close>, before the KeyError for \<open>lon\<close> is
  caught.
\<close>

theorem update_gps_partial_fix_counterexample:
  "update_gps (Message (JObj [(''class'', JStr ''TPV''), (''mode'', JNum 3),
        (''lat'', JNum (103 / 2))])) 5 6 GPS_init =
     Inr (GPS_init\<lparr>lat := JNum (103 / 2),
            gps_cache := Some [(KStr ''TPV'', JObj [(''class'', JStr ''TPV''),
               (''mode'', JNum 3), (''lat'', JNum (103 / 2)),
               (''lastReadingTime'', JNum 5)])]\<rparr>) \<and>
   lat GPS_init = JNull \<and> JNum (103 / 2) \<noteq> JNull"
  by (simp add: update_gps_returns update_body_dict tpv_part_def sky_part_def try_fix_def
      except_KeyError_def GPS_init_def)

text \<open>
  C3, amended. A \<open>TPV\<close> sentence with mode 2 or 3 from which one of \<open>lat\<close>, \<open>lon\<close>,
  \<open>alt\<close>, \<open>time\<close> is missing leaves \<open>timestamp\<close>, \<open>lastGpsReading\<close> and \<open>hdop\<close> at their
  prior values. When the sentence is processed while \<open>gps_cache\<close> does not exist yet,
  \<open>lat\<close>, \<open>lon\<close> and \<open>alt\<close> keep their prior values too. Otherwise those of \<open>lat\<close>,
  \<open>lon\<close>, \<open>alt\<close> that come before the first missing field, in the order \<open>lat\<close>, \<open>lon\<close>,
  \<open>alt\<close>, \<open>time\<close>, are set from the sentence and the others keep their prior values; a
  sentence without \<open>lat\<close> changes no snapshot attribute.
\<close>

theorem update_gps_missing_field:
  assumes "map_of d ''class'' = Some (JStr ''TPV'')"
    and "map_of d ''mode'' = Some (JNum 2) \<or> map_of d ''mode'' = Some (JNum 3)"
    and "map_of d ''lat'' = None \<or> map_of d ''lon'' = None \<or>
         map_of d ''alt'' = None \<or> map_of d ''time'' = None"
  shows "\<exists>st'. update_gps (Message (JObj d)) t1 t2 st = Inr st' \<and>
     timestamp st' = timestamp st \<and> lastGpsReading st' = lastGpsReading st \<and>
     hdop st' = hdop st \<and>
     (if gps_cache st = None then lat st' = lat st \<and> lon st' = lon st \<and> alt st' = alt st
      else
        lat st' = (case map_of d ''lat'' of None \<Rightarrow> lat st | Some la \<Rightarrow> la) \<and>
        lon st' = (case map_of d ''lat'' of None \<Rightarrow> lon st | Some la \<Rightarrow>
                    (case map_of d ''lon'' of None \<Rightarrow> lon st | Some lo \<Rightarrow> lo)) \<and>
        alt st' = (case map_of d ''lat'' of None \<Rightarrow> alt st | Some la \<Rightarrow>
                    (case map_of d ''lon'' of None \<Rightarrow> alt st | Some lo \<Rightarrow>
                      (case map_of d ''alt'' of None \<Rightarrow> alt st | Some al \<Rightarrow> al))))"
proof (cases "gps_cache st")
  case None
  then show ?thesis by (simp add: update_gps_returns update_body_dict)
next
  case (Some cache)
  with assms(3) show ?thesis
    by (auto simp add: update_gps_returns update_body_dict assms(1)
        tpv_part_fix [OF assms(1,2)] try_fix_dict split: option.splits)
qed

theorem update_gps_missing_field_witness:
  "gps_cache GPS_init \<noteq> None \<and>
   (\<exists>st'. update_gps (Message (JObj [(''class'', JStr ''TPV''), (''mode'', JNum 3),
        (''lat'', JNum (103 / 2)), (''alt'', JNum 10)])) 5 6 GPS_init = Inr st' \<and>
     timestamp st' = timestamp GPS_init \<and> lastGpsReading st' = lastGpsReading GPS_init \<and>
     hdop st' = hdop GPS_init \<and> lat st' = JNum (103 / 2) \<and> lon st' = lon GPS_init \<and>
     alt st' = alt GPS_init)"
  using update_gps_missing_field [of "[(''class'', JStr ''TPV''), (''mode'', JNum 3),
        (''lat'', JNum (103 / 2)), (''alt'', JNum 10)]" 5 6 GPS_init]
  by (simp add: GPS_init_def)

section \<open>The corrected timestamp\<close>

text \<open>
  C2. The claim is that \<open>get_corrected_timestamp\<close> returns the GPS time of the last fix
  plus the seconds elapsed since that fix was cached. The code passes the elapsed seconds
  to \<open>timedelta\<close> as days. After the fix below, cached when the clock read 1000, a call
  at clock 1001 returns the GPS time plus one day, and a call at clock 1003 returns it
  plus three days: two seconds apart, the results are two days apart.
\<close>

theorem get_corrected_timestamp_adds_days:
  "(case update_gps (Message (JObj [(''class'', JStr ''TPV''), (''mode'', JNum 3),
        (''lat'', JNum (103 / 2)), (''lon'', JNum (- 1 / 10)), (''alt'', JNum 10),
        (''time'', JNum 1700000000)])) 999 1000 GPS_init of
      Inl e \<Rightarrow> False
    | Inr st \<Rightarrow>
        get_corrected_timestamp 1001 st = Inr ((1700000000 + 86400) * 1000000) \<and>
        get_corrected_timestamp 1003 st = Inr ((1700000000 + 3 * 86400) * 1000000))"
  by code_simp

text \<open>
  C7, as the claim states it, fails: on the object as \<open>__init__\<close> leaves it the call
  raises the TypeError of \<open>datetime.fromtimestamp(None)\<close>. The code has no condition of
  its own for this state and returns no sentinel.
\<close>

theorem get_corrected_timestamp_init_counterexample:
  "get_corrected_timestamp 0 GPS_init = Inl TypeError"
  by (simp add: get_corrected_timestamp_def GPS_init_def)

text \<open>
  C7, amended. While no fix has been cached, so that \<open>timestamp\<close> is still \<open>None\<close>,
  \<open>get_corrected_timestamp\<close> raises TypeError to its caller, whatever the clock reads.
\<close>

theorem get_corrected_timestamp_no_fix:
  "timestamp st = JNull \<Longrightarrow> get_corrected_timestamp now st = Inl TypeError"
  by (simp add: get_corrected_timestamp_def)

theorem get_corrected_timestamp_no_fix_witness:
  "timestamp GPS_init = JNull \<and>
   get_corrected_timestamp 1700000000 GPS_init = Inl TypeError"
  using get_corrected_timestamp_no_fix [of GPS_init 1700000000]
  by (simp add: GPS_init_def)

section \<open>The cache accessors\<close>

text \<open>
  C4. The claim is that \<open>getSentence\<close> looks the class up without regard to case and
  returns the cached sentence or \<open>None\<close>. The code calls \<open>which.toupper()\<close>, which no
  string has: every call raises AttributeError, whatever the argument and the cache.
\<close>

theorem getSentence_raises: "getSentence which st = Inl AttributeError"
  by (simp add: getSentence_def str_method_def)

text \<open>
  C5. The claim is that \<open>getSentences\<close> returns the classes cached so far. The code
  reads \<open>self.gpc_cache\<close>, which no method ever sets: every call raises AttributeError.
\<close>

theorem getSentences_raises: "getSentences st = Inl AttributeError"
  by (simp add: getSentences_def getattr_def)

section \<open>The loop never ends on an error\<close>

lemma try_fix_flags:
  "running (fst (try_fix data t2 st)) = running st \<and>
   stopped (fst (try_fix data t2 st)) = stopped st"
  by (simp add: try_fix_def except_KeyError_def Let_def split: sum.splits)

lemma sky_part_flags:
  "running (fst (sky_part data st)) = running st \<and>
   stopped (fst (sky_part data st)) = stopped st"
  by (simp add: sky_part_def split: sum.splits)

lemma tpv_part_flags:
  "running (fst (tpv_part data t2 st)) = running st \<and>
   stopped (fst (tpv_part data t2 st)) = stopped st"
proof -
  let ?r = "case try_fix data t2 st of
              (st', Some e) \<Rightarrow> (st', Some e)
            | (st', None) \<Rightarrow> sky_part data st'"
  have "running (fst ?r) = running st \<and> stopped (fst ?r) = stopped st"
    using try_fix_flags [of data t2 st]
    by (cases "try_fix data t2 st") (auto simp add: sky_part_flags split: option.splits)
  then show ?thesis
    by (simp add: tpv_part_def sky_part_flags split: sum.splits)
qed

lemma update_body_flags:
  "running (fst (update_body p t1 t2 st)) = running st \<and>
   stopped (fst (update_body p t1 t2 st)) = stopped st"
  by (cases p) (simp_all add: update_body_def tpv_part_flags split: sum.splits option.splits)

text \<open>The loop leaves on no exception, and \<open>running\<close> falls only to a stop request.\<close>

lemma while_running_result:
  "\<exists>st'. while_running evs st = Inr st' \<and>
     running st' = (running st \<and> StopRequest \<notin> set evs) \<and> stopped st' = stopped st"
proof (induction evs arbitrary: st)
  case Nil
  then show ?case by simp
next
  case (Cons ev evs)
  show ?case
  proof (cases ev)
    case (Tick p t1 t2)
    show ?thesis
    proof (cases "running st")
      case True
      from Cons.IH [of "fst (update_body p t1 t2 st)"] True Tick
      show ?thesis by (auto simp add: update_gps_returns update_body_flags)
    next
      case False
      with Tick show ?thesis by simp
    qed
  next
    case CacheCreated
    from Cons.IH [of "st\<lparr>gps_cache := Some []\<rparr>"] CacheCreated
    show ?thesis by auto
  next
    case StopRequest
    from Cons.IH [of "st\<lparr>running := False\<rparr>"] StopRequest
    show ?thesis by auto
  qed
qed

text \<open>
  C9. Whatever one poll meets (a read that raises or returns nothing, a line that is not
  JSON, a message of any shape, with or without a cache to put it in), \<open>update_gps\<close>
  returns normally. So over any sequence of events the thread's loop never leaves on an
  exception, and the thread has reached its end, where it sets \<open>stopped\<close>, exactly when a
  stop was requested.
\<close>

theorem update_gps_never_raises:
  "(\<exists>st'. update_gps p t1 t2 st = Inr st') \<and>
   (\<exists>st'. updater evs st = Inr st' \<and> stopped st' = (StopRequest \<in> set evs))"
proof
  show "\<exists>st'. update_gps p t1 t2 st = Inr st'" by (simp add: update_gps_returns)
next
  from while_running_result [of evs "st\<lparr>running := True, stopped := False\<rparr>"]
  obtain st1 where "while_running evs (st\<lparr>running := True, stopped := False\<rparr>) = Inr st1"
    "running st1 = (StopRequest \<notin> set evs)" "stopped st1 = False" by auto
  then show "\<exists>st'. updater evs st = Inr st' \<and> stopped st' = (StopRequest \<in> set evs)"
    by (auto simp add: updater_def)
qed

end
